theory Spec2Isabelle
  imports Main "HOL-Library.AList" "HOL-Library.Char_ord" "HOL-Library.List_Lexorder"
begin

section \<open>Python values, exceptions and the host\<close>

text \<open>
  The two actions of \<^verbatim>\<open>ckanext/gwexplorer/actions.py\<close> and the view predicate of
  \<^verbatim>\<open>ckanext/gwexplorer/plugin.py\<close> work on JSON-like Python values: the request's
  \<^verbatim>\<open>data_dict\<close>, the resource dictionary and the response envelopes. A dictionary is
  the list of its items in insertion order; numbers are integers.
\<close>

datatype pyval =
    PNone
  | PBool bool
  | PInt int
  | PStr string
  | PList "pyval list"
  | PDict "(string \<times> pyval) list"

text \<open>Python's truth test, as \<^verbatim>\<open>if not x\<close> and \<^verbatim>\<open>or\<close> apply it.\<close>

fun truthy :: "pyval \<Rightarrow> bool" where
  "truthy PNone = False"
| "truthy (PBool b) = b"
| "truthy (PInt i) = (i \<noteq> 0)"
| "truthy (PStr s) = (s \<noteq> [])"
| "truthy (PList xs) = (xs \<noteq> [])"
| "truthy (PDict kvs) = (kvs \<noteq> [])"

fun type_name :: "pyval \<Rightarrow> string" where
  "type_name PNone = ''NoneType''"
| "type_name (PBool b) = ''bool''"
| "type_name (PInt i) = ''int''"
| "type_name (PStr s) = ''str''"
| "type_name (PList xs) = ''list''"
| "type_name (PDict kvs) = ''dict''"

text \<open>\<^verbatim>\<open>d.get(k, default)\<close> on the items of a dictionary.\<close>

definition dict_get :: "(string \<times> 'v) list \<Rightarrow> string \<Rightarrow> 'v \<Rightarrow> 'v" where
  "dict_get d k dflt = (case map_of d k of None \<Rightarrow> dflt | Some v \<Rightarrow> v)"

text \<open>
  Exceptions are values. \<open>DSLQueryError\<close> and \<open>DatabaseConnectionError\<close> are the two
  classes the module declares; \<open>KeyError\<close>, \<open>AttributeError\<close> and \<open>TypeError\<close> are the
  ones Python itself raises in the code modelled here; \<open>HostError c m\<close> is any other
  exception of class \<open>c\<close> with message \<open>m\<close> that the host platform or a library raises
  (\<^verbatim>\<open>NotAuthorized\<close>, a database driver's error, ...). All of them are subclasses of
  \<^verbatim>\<open>Exception\<close>, so every \<^verbatim>\<open>except Exception\<close> catches them.
\<close>

datatype exn =
    DSLQueryError string
  | DatabaseConnectionError string
  | KeyError string
  | AttributeError string string
  | TypeError string
  | HostError string string

definition quoted :: "string \<Rightarrow> string" where
  "quoted s = CHR 0x27 # s @ [CHR 0x27]"

text \<open>\<^verbatim>\<open>str(e)\<close>, which the f-strings of the error messages insert.\<close>

fun exn_str :: "exn \<Rightarrow> string" where
  "exn_str (DSLQueryError m) = m"
| "exn_str (DatabaseConnectionError m) = m"
| "exn_str (KeyError k) = quoted k"
| "exn_str (AttributeError ty a) = quoted ty @ '' object has no attribute '' @ quoted a"
| "exn_str (TypeError m) = m"
| "exn_str (HostError c m) = m"

text \<open>
  What reaches the caller of an action instead of a response: an exception that nothing
  caught, or the HTTP error of \<^verbatim>\<open>tk.abort(status, detail)\<close>, which never returns.
\<close>

datatype fault = Raised exn | Abort nat string

text \<open>
  The table parser of the external library, reduced to what the module reads of it:
  the property \<^verbatim>\<open>raw_fields\<close> (a list of string dictionaries) and the method
  \<^verbatim>\<open>get_datas_by_payload\<close> (a list of rows, each a dictionary keyed by column name).
  Either may raise. The cells of a row are whatever the database driver yields, a type
  parameter.
\<close>

record 'c parser =
  raw_fields :: "exn + (string \<times> string) list list"
  get_datas_by_payload :: "pyval \<Rightarrow> exn + (string \<times> 'c) list list"

text \<open>
  One field of the host's \<^verbatim>\<open>datastore_search\<close> result: its \<^verbatim>\<open>"id"\<close> (absent when the
  key is missing) and its optional \<^verbatim>\<open>"info"\<close> dictionary of strings.
\<close>

record ds_field =
  ds_id :: "string option"
  ds_info :: "(string \<times> string) list option"

text \<open>
  Everything outside the module, as the module calls it:
  \<^item> \<open>config\<close>: \<^verbatim>\<open>tk.config\<close>;
  \<^item> \<open>check_access\<close>: \<^verbatim>\<open>tk.check_access(action, context, data_dict)\<close>, \<open>None\<close> when
    it returns and \<open>Some e\<close> when it raises \<open>e\<close>;
  \<^item> \<open>datastore_search\<close>: \<^verbatim>\<open>tk.get_action("datastore_search")(context, data_dict)\<close>,
    giving the \<^verbatim>\<open>"fields"\<close> entry of the result (\<open>None\<close> when the key is absent);
  \<^item> \<open>adapted\<close>: the text that \<^verbatim>\<open>adapt(table_name).adapted\<close> renders to in the query;
  \<^item> \<open>get_parser\<close>: \<^verbatim>\<open>Connector(url, query, engine_params)\<close> followed by
    \<^verbatim>\<open>get_parser(conn, ...)\<close>;
  \<^item> \<open>json_value\<close>: what \<^verbatim>\<open>json.loads(json.dumps(v, cls=DataFrameEncoder))\<close> makes of one
    cell. The standard encoder writes a list of dictionaries with string keys item by
    item and the decoder reads the keys back in the same order, so the round trip acts
    on the cells only.
  Calls to the logger have no effect on any result and are left out.
\<close>

record 'c env =
  config :: "(string \<times> pyval) list"
  check_access :: "string \<Rightarrow> (string \<times> pyval) list \<Rightarrow> (string \<times> pyval) list \<Rightarrow> exn option"
  datastore_search ::
    "(string \<times> pyval) list \<Rightarrow> (string \<times> pyval) list \<Rightarrow> exn + ds_field list option"
  adapted :: "pyval \<Rightarrow> exn + string"
  get_parser :: "pyval \<Rightarrow> string \<Rightarrow> (string \<times> pyval) list \<Rightarrow> exn + 'c parser"
  json_value :: "'c \<Rightarrow> exn + pyval"

section \<open>The service (actions.py)\<close>

definition COLUMNS_TO_EXCLUDE :: "string list" where
  "COLUMNS_TO_EXCLUDE = [''_id'', ''id'', ''_full_text'']"

definition DEFAULT_POOL_SIZE :: int where
  "DEFAULT_POOL_SIZE = 15"

definition DEFAULT_MAX_OVERFLOW :: int where
  "DEFAULT_MAX_OVERFLOW = 100"

definition DEFAULT_POOL_RECYCLE :: int where
  "DEFAULT_POOL_RECYCLE = 3600"

text \<open>\<^verbatim>\<open>DSLService._create_error_response(field, message="field required")\<close>.\<close>

definition create_error_response :: "string \<Rightarrow> string \<Rightarrow> pyval" where
  "create_error_response field message =
     PDict [(''detail'',
       PList [PDict [(''loc'', PList [PStr ''query'', PStr field]),
                     (''msg'', PStr message),
                     (''type'', PStr ''value_error.missing'')]])]"

text \<open>\<^verbatim>\<open>DSLService._get_database_connection_params\<close>.\<close>

definition get_database_connection_params :: "'c env \<Rightarrow> (string \<times> pyval) list" where
  "get_database_connection_params E =
     [(''pool_size'', dict_get (config E) ''ckanext.odn.dsl.pool_size'' (PInt DEFAULT_POOL_SIZE)),
      (''max_overflow'',
         dict_get (config E) ''ckanext.odn.dsl.max_overflow'' (PInt DEFAULT_MAX_OVERFLOW)),
      (''pool_recycle'',
         dict_get (config E) ''ckanext.odn.dsl.pool_recycle'' (PInt DEFAULT_POOL_RECYCLE)),
      (''echo'', dict_get (config E) ''ckanext.odn.dsl.echo'' (PBool False)),
      (''echo_pool'', dict_get (config E) ''ckanext.odn.dsl.echo_pool'' (PBool False))]"

text \<open>
  \<^verbatim>\<open>DSLService._get_table_parser\<close>. The body of the \<^verbatim>\<open>try\<close> comes first; the handler
  turns every exception of the body, its own \<open>DatabaseConnectionError\<close> included, into
  a \<open>DatabaseConnectionError\<close> with the prefixed message.
\<close>

definition get_table_parser_body :: "'c env \<Rightarrow> pyval \<Rightarrow> exn + 'c parser" where
  "get_table_parser_body E table_name =
     (let read_url = dict_get (config E) ''ckan.datastore.read_url'' (PStr '''') in
      if \<not> truthy read_url then Inl (DatabaseConnectionError ''Database read URL not configured'')
      else
        (case adapted E table_name of
           Inl e \<Rightarrow> Inl e
         | Inr a \<Rightarrow>
             get_parser E read_url (''select * from '' @ [CHR 0x22] @ a @ [CHR 0x22])
               (get_database_connection_params E)))"

definition get_table_parser :: "'c env \<Rightarrow> pyval \<Rightarrow> exn + 'c parser" where
  "get_table_parser E table_name =
     (case get_table_parser_body E table_name of
        Inl e \<Rightarrow> Inl (DatabaseConnectionError (''Database connection failed: '' @ exn_str e))
      | Inr p \<Rightarrow> Inr p)"

text \<open>
  \<^verbatim>\<open>DSLService._get_name_title_map\<close>. The loop over the fields stores, for every id
  outside the exclusion list, the label of the field's info, or the id where there is no
  info or no label; a later field with the same id overwrites an earlier one. A field
  without \<^verbatim>\<open>"id"\<close> raises \<open>KeyError\<close>. The handler returns the empty dictionary for any
  exception of the call or of the loop.
\<close>

definition field_label :: "ds_field \<Rightarrow> string \<Rightarrow> string" where
  "field_label f field_id =
     dict_get (case ds_info f of None \<Rightarrow> [] | Some info \<Rightarrow> info) ''label'' field_id"

fun name_map_loop :: "ds_field list \<Rightarrow> (string \<times> string) list \<Rightarrow> exn + (string \<times> string) list" where
  "name_map_loop [] name_map = Inr name_map"
| "name_map_loop (f # fs) name_map =
     (case ds_id f of
        None \<Rightarrow> Inl (KeyError ''id'')
      | Some field_id \<Rightarrow>
          if field_id \<notin> set COLUMNS_TO_EXCLUDE
          then name_map_loop fs (AList.update field_id (field_label f field_id) name_map)
          else name_map_loop fs name_map)"

definition get_name_title_map_body :: "'c env \<Rightarrow> pyval \<Rightarrow> exn + (string \<times> string) list" where
  "get_name_title_map_body E table_name =
     (case datastore_search E [(''ignore_auth'', PBool True)]
             [(''resource_id'', table_name), (''limit'', PInt 0)] of
        Inl e \<Rightarrow> Inl e
      | Inr res \<Rightarrow> name_map_loop (case res of None \<Rightarrow> [] | Some fs \<Rightarrow> fs) [])"

definition get_name_title_map :: "'c env \<Rightarrow> pyval \<Rightarrow> (string \<times> string) list" where
  "get_name_title_map E table_name =
     (case get_name_title_map_body E table_name of Inl e \<Rightarrow> [] | Inr name_map \<Rightarrow> name_map)"

text \<open>
  \<^verbatim>\<open>DSLService.get_table_metadata\<close>. The comprehension reads \<^verbatim>\<open>field["fid"]\<close> of every
  raw field (\<open>KeyError\<close> when it is missing), keeps the fields whose fid is outside the
  exclusion list and sets their \<^verbatim>\<open>"name"\<close>. \<^verbatim>\<open>sorted\<close> is stable and computes each key
  once. The handler returns the empty list for any exception, so the function itself
  never raises: its result type keeps the sum only because the caller has a handler.
\<close>

fun filter_fields ::
  "(string \<times> string) list \<Rightarrow> (string \<times> string) list list \<Rightarrow> exn + (string \<times> string) list list" where
  "filter_fields name_title_map [] = Inr []"
| "filter_fields name_title_map (field # result) =
     (case map_of field ''fid'' of
        None \<Rightarrow> Inl (KeyError ''fid'')
      | Some fid \<Rightarrow>
          (case filter_fields name_title_map result of
             Inl e \<Rightarrow> Inl e
           | Inr rest \<Rightarrow>
               if fid \<notin> set COLUMNS_TO_EXCLUDE
               then Inr (AList.update ''name'' (dict_get name_title_map fid fid) field # rest)
               else Inr rest))"

fun name_keys :: "(string \<times> string) list list \<Rightarrow> exn + string list" where
  "name_keys [] = Inr []"
| "name_keys (x # xs) =
     (case map_of x ''name'' of
        None \<Rightarrow> Inl (KeyError ''name'')
      | Some k \<Rightarrow> (case name_keys xs of Inl e \<Rightarrow> Inl e | Inr ks \<Rightarrow> Inr (k # ks)))"

definition sorted_by_name :: "(string \<times> string) list list \<Rightarrow> exn + (string \<times> string) list list" where
  "sorted_by_name xs =
     (case name_keys xs of
        Inl e \<Rightarrow> Inl e
      | Inr ks \<Rightarrow> Inr (map snd (sort_key fst (zip ks xs))))"

definition get_table_metadata_body ::
  "'c env \<Rightarrow> pyval \<Rightarrow> bool \<Rightarrow> exn + (string \<times> string) list list" where
  "get_table_metadata_body E table_name do_sort =
     (case get_table_parser E table_name of
        Inl e \<Rightarrow> Inl e
      | Inr table_parser \<Rightarrow>
          (let name_title_map = get_name_title_map E table_name in
           case raw_fields table_parser of
             Inl e \<Rightarrow> Inl e
           | Inr result \<Rightarrow>
               (case filter_fields name_title_map result of
                  Inl e \<Rightarrow> Inl e
                | Inr filtered_result \<Rightarrow>
                    if do_sort then sorted_by_name filtered_result else Inr filtered_result)))"

definition get_table_metadata ::
  "'c env \<Rightarrow> pyval \<Rightarrow> bool \<Rightarrow> exn + (string \<times> string) list list" where
  "get_table_metadata E table_name do_sort =
     (case get_table_metadata_body E table_name do_sort of
        Inl e \<Rightarrow> Inr []
      | Inr filtered_result \<Rightarrow> Inr filtered_result)"

text \<open>
  \<^verbatim>\<open>DSLService.get_data_from_payload\<close>: the excluded keys are dropped from every row,
  the rows go through the JSON round trip, and every exception of the body becomes a
  \<open>DSLQueryError\<close>.
\<close>

fun json_row :: "('c \<Rightarrow> exn + pyval) \<Rightarrow> (string \<times> 'c) list \<Rightarrow> exn + (string \<times> pyval) list" where
  "json_row enc [] = Inr []"
| "json_row enc ((key, v) # items) =
     (case enc v of
        Inl e \<Rightarrow> Inl e
      | Inr v' \<Rightarrow> (case json_row enc items of Inl e \<Rightarrow> Inl e | Inr items' \<Rightarrow> Inr ((key, v') # items')))"

fun json_rows :: "('c \<Rightarrow> exn + pyval) \<Rightarrow> (string \<times> 'c) list list \<Rightarrow> exn + pyval list" where
  "json_rows enc [] = Inr []"
| "json_rows enc (row # rows) =
     (case json_row enc row of
        Inl e \<Rightarrow> Inl e
      | Inr row' \<Rightarrow> (case json_rows enc rows of Inl e \<Rightarrow> Inl e | Inr rows' \<Rightarrow> Inr (PDict row' # rows')))"

definition get_data_from_payload_body :: "'c env \<Rightarrow> pyval \<Rightarrow> pyval \<Rightarrow> exn + pyval list" where
  "get_data_from_payload_body E table_name payload =
     (case get_table_parser E table_name of
        Inl e \<Rightarrow> Inl e
      | Inr table_parser \<Rightarrow>
          (case get_datas_by_payload table_parser payload of
             Inl e \<Rightarrow> Inl e
           | Inr result \<Rightarrow>
               (let filtered_response =
                      map (filter (\<lambda>(key, v). key \<notin> set COLUMNS_TO_EXCLUDE)) result
                in json_rows (json_value E) filtered_response)))"

definition get_data_from_payload :: "'c env \<Rightarrow> pyval \<Rightarrow> pyval \<Rightarrow> exn + pyval list" where
  "get_data_from_payload E table_name payload =
     (case get_data_from_payload_body E table_name payload of
        Inl e \<Rightarrow> Inl (DSLQueryError (''Query execution failed: '' @ exn_str e))
      | Inr rows \<Rightarrow> Inr rows)"

text \<open>\<^verbatim>\<open>DSLService.show_metadata\<close>.\<close>

definition py_field :: "(string \<times> string) list \<Rightarrow> pyval" where
  "py_field field = PDict (map (\<lambda>(k, v). (k, PStr v)) field)"

definition show_metadata :: "'c env \<Rightarrow> pyval \<Rightarrow> bool \<Rightarrow> pyval" where
  "show_metadata E resource_id do_sort =
     (if \<not> truthy resource_id then create_error_response ''resourceID'' ''field required''
      else
        (case get_table_metadata E resource_id do_sort of
           Inr fields_meta \<Rightarrow>
             PDict [(''success'', PBool True),
                    (''schema'', PList (map py_field fields_meta)),
                    (''name'', resource_id),
                    (''resource_id'', resource_id),
                    (''message'', PStr '''')]
         | Inl e \<Rightarrow>
             PDict [(''success'', PBool False),
                    (''schema'', PList []),
                    (''name'', resource_id),
                    (''resource_id'', resource_id),
                    (''message'', PStr (''Error fetching metadata: '' @ exn_str e))]))"

text \<open>
  \<^verbatim>\<open>DSLService.query_data\<close>: the first handler takes a \<open>DSLQueryError\<close>, the second any
  other exception.
\<close>

definition query_data :: "'c env \<Rightarrow> pyval \<Rightarrow> pyval \<Rightarrow> pyval" where
  "query_data E resource_id payload =
     (if \<not> truthy resource_id then create_error_response ''resourceID'' ''field required''
      else if \<not> truthy payload then create_error_response ''payload'' ''payload field required''
      else
        (case get_data_from_payload E resource_id payload of
           Inr rows \<Rightarrow>
             PDict [(''success'', PBool True), (''data'', PList rows), (''message'', PStr '''')]
         | Inl (DSLQueryError m) \<Rightarrow>
             PDict [(''success'', PBool False), (''data'', PNone), (''message'', PStr m)]
         | Inl e \<Rightarrow>
             PDict [(''success'', PBool False), (''data'', PNone),
                    (''message'', PStr (''Unexpected error: '' @ exn_str e))]))"

section \<open>The two actions (actions.py)\<close>

text \<open>
  \<^verbatim>\<open>str.lower\<close>, on the ASCII letters. Both uses compare the result with ASCII words
  (\<^verbatim>\<open>"true"\<close>, the four formats), and no character outside ASCII lowers to a letter of
  these words.
\<close>

definition lower_char :: "char \<Rightarrow> char" where
  "lower_char c =
     (let n = (of_char c :: nat) in if 65 \<le> n \<and> n \<le> 90 then char_of (n + 32) else c)"

definition py_lower :: "pyval \<Rightarrow> exn + string" where
  "py_lower v =
     (case v of
        PStr s \<Rightarrow> Inr (map lower_char s)
      | _ \<Rightarrow> Inl (AttributeError (type_name v) ''lower''))"

text \<open>\<^verbatim>\<open>show_dsl_metadata(context, data_dict)\<close>.\<close>

definition show_dsl_metadata ::
  "'c env \<Rightarrow> (string \<times> pyval) list \<Rightarrow> (string \<times> pyval) list \<Rightarrow> fault + pyval" where
  "show_dsl_metadata E context data_dict =
     (let resource_id = dict_get data_dict ''resourceID'' PNone in
      if \<not> truthy resource_id then Inl (Abort 400 ''resourceID field is required'')
      else
        (case check_access E ''resource_show'' context [(''id'', resource_id)] of
           Some e \<Rightarrow> Inl (Raised e)
         | None \<Rightarrow>
             (case py_lower (dict_get data_dict ''sort'' (PStr ''false'')) of
                Inl e \<Rightarrow> Inl (Raised e)
              | Inr s \<Rightarrow> Inr (show_metadata E resource_id (s = ''true'')))))"

text \<open>\<^verbatim>\<open>dsl_query_data(context, data_dict)\<close>.\<close>

definition dsl_query_data ::
  "'c env \<Rightarrow> (string \<times> pyval) list \<Rightarrow> (string \<times> pyval) list \<Rightarrow> fault + pyval" where
  "dsl_query_data E context data_dict =
     (let resource_id = dict_get data_dict ''resourceID'' PNone in
      case check_access E ''resource_show'' context [(''id'', resource_id)] of
        Some e \<Rightarrow> Inl (Raised e)
      | None \<Rightarrow>
          (let payload = dict_get data_dict ''payload'' PNone in
           Inr (query_data E resource_id payload)))"

section \<open>The view predicate (plugin.py)\<close>

text \<open>
  \<^verbatim>\<open>needle in x\<close> for a string needle: a substring test on a string, membership in a
  list, a key test on a dictionary, and \<open>TypeError\<close> on a value that is not iterable.
\<close>

fun contains_str :: "string \<Rightarrow> string \<Rightarrow> bool" where
  "contains_str needle [] = (needle = [])"
| "contains_str needle (c # cs) = (take (length needle) (c # cs) = needle \<or> contains_str needle cs)"



section \<open>Reading a response\<close>

text \<open>
  The theorems below read the responses through three accessors: the boolean
  \<^verbatim>\<open>"success"\<close> key of an envelope, the list stored under a key of an envelope, and
  one key of a dictionary.
\<close>

definition has_success_flag :: "pyval \<Rightarrow> bool" where
  "has_success_flag r =
     (case r of
        PDict kvs \<Rightarrow> (case map_of kvs ''success'' of Some (PBool b) \<Rightarrow> True | _ \<Rightarrow> False)
      | _ \<Rightarrow> False)"

definition envelope_items :: "pyval \<Rightarrow> string \<Rightarrow> pyval list" where
  "envelope_items r k =
     (case r of
        PDict kvs \<Rightarrow> (case map_of kvs k of Some (PList xs) \<Rightarrow> xs | _ \<Rightarrow> [])
      | _ \<Rightarrow> [])"

definition item_get :: "pyval \<Rightarrow> string \<Rightarrow> pyval option" where
  "item_get x k = (case x of PDict kvs \<Rightarrow> map_of kvs k | _ \<Rightarrow> None)"

definition item_keys :: "pyval \<Rightarrow> string list" where
  "item_keys x = (case x of PDict kvs \<Rightarrow> map fst kvs | _ \<Rightarrow> [])"

text \<open>
  The label that the host's field list holds for a column: the \<^verbatim>\<open>"label"\<close> of the info
  of the field with that id (of the last one, should the list name an id twice).
\<close>

definition host_label :: "ds_field list \<Rightarrow> string \<Rightarrow> string option" where
  "host_label fs fid =
     (case find (\<lambda>d. ds_id d = Some fid) (rev fs) of
        None \<Rightarrow> None
      | Some d \<Rightarrow> (case ds_info d of None \<Rightarrow> None | Some info \<Rightarrow> map_of info ''label''))"

section \<open>Sample hosts\<close>

text \<open>
  A datastore table with the internal columns \<^verbatim>\<open>_id\<close> and \<^verbatim>\<open>_full_text\<close> and two data
  columns, one of them labelled in the data dictionary; every caller is authorized.
\<close>

definition demo_parser :: "pyval parser" where
  "demo_parser =
     \<lparr> raw_fields =
         Inr [[(''fid'', ''_id''), (''semanticType'', ''quantitative'')],
              [(''fid'', ''depth''), (''semanticType'', ''quantitative'')],
              [(''fid'', ''well''), (''name'', ''well''), (''semanticType'', ''nominal'')],
              [(''fid'', ''_full_text'')]],
       get_datas_by_payload = (\<lambda>payload.
         Inr [[(''_id'', PInt 1), (''well'', PStr ''A1''), (''depth'', PInt 30),
               (''_full_text'', PStr ''a1 30'')],
              [(''_id'', PInt 2), (''well'', PStr ''B7''), (''depth'', PInt 12),
               (''_full_text'', PStr ''b7 12'')]]) \<rparr>"

definition demo_env :: "pyval env" where
  "demo_env =
     \<lparr> config = [(''ckan.datastore.read_url'', PStr ''postgresql://ro@db/datastore'')],
       check_access = (\<lambda>action context data_dict. None),
       datastore_search = (\<lambda>context data_dict.
         Inr (Some [\<lparr> ds_id = Some ''_id'', ds_info = None \<rparr>,
                    \<lparr> ds_id = Some ''well'', ds_info = Some [(''label'', ''Well name'')] \<rparr>,
                    \<lparr> ds_id = Some ''depth'', ds_info = Some [(''notes'', ''metres'')] \<rparr>])),
       adapted = (\<lambda>table_name.
         case table_name of
           PStr s \<Rightarrow> Inr s
         | _ \<Rightarrow> Inl (HostError ''ProgrammingError'' ''cannot adapt'')),
       get_parser = (\<lambda>url query params. Inr demo_parser),
       json_value = Inr \<rparr>"

text \<open>The same host refusing the caller, with no read URL, and with a failing field lookup.\<close>

definition denied_env :: "pyval env" where
  "denied_env =
     demo_env \<lparr> check_access := (\<lambda>action context data_dict.
       Some (HostError ''NotAuthorized'' ''not authorized to read resource'')) \<rparr>"

definition unconfigured_env :: "pyval env" where
  "unconfigured_env = demo_env \<lparr> config := [] \<rparr>"

definition unlabelled_env :: "pyval env" where
  "unlabelled_env =
     demo_env \<lparr> datastore_search := (\<lambda>context data_dict.
       Inl (HostError ''NotFound'' ''Resource was not found'')) \<rparr>"

section \<open>Facts about the service\<close>

lemma get_table_metadata_total: "\<exists>fs. get_table_metadata E t s = Inr fs"
  by (simp add: get_table_metadata_def split: sum.splits)


lemma query_data_cases:
  "has_success_flag (query_data E rid payload) \<or>
   query_data E rid payload = create_error_response ''resourceID'' ''field required'' \<or>
   query_data E rid payload = create_error_response ''payload'' ''payload field required''"
  by (auto simp: query_data_def has_success_flag_def split: sum.splits exn.splits)

lemma show_metadata_success:
  "truthy rid \<Longrightarrow> has_success_flag (show_metadata E rid s)"
  by (auto simp: show_metadata_def has_success_flag_def split: sum.splits)

section \<open>The success flag of the envelopes\<close>

text \<open>
  C7, as stated, fails: a query without payload from an authorized caller is answered
  with the missing-field envelope \<^verbatim>\<open>{"detail": [...]}\<close>, which has no \<^verbatim>\<open>"success"\<close>
  key.
\<close>

theorem missing_payload_envelope_has_no_success_flag:
  "dsl_query_data demo_env [] [(''resourceID'', PStr ''r1'')] =
     Inr (create_error_response ''payload'' ''payload field required'') \<and>
   \<not> has_success_flag (create_error_response ''payload'' ''payload field required'')"
  by (simp add: dsl_query_data_def query_data_def dict_get_def demo_env_def
      has_success_flag_def create_error_response_def)

text \<open>
  C7, amended: every response the metadata action returns has a boolean \<^verbatim>\<open>"success"\<close>
  key, and every response the query action returns either has one or is one of the two
  missing-field envelopes built by \<^verbatim>\<open>_create_error_response\<close>.
\<close>

theorem envelope_success_flag_or_missing_field:
  "(show_dsl_metadata E ctx data_dict = Inr r \<longrightarrow> has_success_flag r) \<and>
   (dsl_query_data E ctx data_dict = Inr r \<longrightarrow>
      has_success_flag r \<or>
      r = create_error_response ''resourceID'' ''field required'' \<or>
      r = create_error_response ''payload'' ''payload field required'')"
proof (intro conjI impI)
  assume "show_dsl_metadata E ctx data_dict = Inr r"
  then show "has_success_flag r"
    by (auto simp: show_dsl_metadata_def Let_def show_metadata_success
        split: if_splits option.splits sum.splits)
next
  assume "dsl_query_data E ctx data_dict = Inr r"
  then have "r = query_data E (dict_get data_dict ''resourceID'' PNone)
                   (dict_get data_dict ''payload'' PNone)"
    by (auto simp: dsl_query_data_def Let_def split: option.splits)
  then show "has_success_flag r \<or>
      r = create_error_response ''resourceID'' ''field required'' \<or>
      r = create_error_response ''payload'' ''payload field required''"
    using query_data_cases by simp
qed

theorem envelope_success_flag_witness:
  "dsl_query_data demo_env []
     [(''resourceID'', PStr ''r1''), (''payload'', PDict [(''workflow'', PList [])])] =
     Inr (PDict [(''success'', PBool True),
                 (''data'', PList [PDict [(''well'', PStr ''A1''), (''depth'', PInt 30)],
                                   PDict [(''well'', PStr ''B7''), (''depth'', PInt 12)]]),
                 (''message'', PStr '''')]) \<and>
   has_success_flag
     (PDict [(''success'', PBool True),
             (''data'', PList [PDict [(''well'', PStr ''A1''), (''depth'', PInt 30)],
                               PDict [(''well'', PStr ''B7''), (''depth'', PInt 12)]]),
             (''message'', PStr '''')])"
  (is "?run = Inr ?R \<and> _")
proof -
  have run: "?run = Inr ?R"
    by (simp add: dsl_query_data_def query_data_def dict_get_def demo_env_def demo_parser_def
        get_data_from_payload_def get_data_from_payload_body_def get_table_parser_def
        get_table_parser_body_def COLUMNS_TO_EXCLUDE_def)
  from envelope_success_flag_or_missing_field [where E = demo_env and ctx = "[]" and r = ?R
      and data_dict = "[(''resourceID'', PStr ''r1''), (''payload'', PDict [(''workflow'', PList [])])]"] run
  show ?thesis
    by (simp add: create_error_response_def)
qed

section \<open>A missing resource identifier\<close>

text \<open>
  C1, as stated, fails: without \<^verbatim>\<open>resourceID\<close> the metadata action does not return the
  missing-field envelope. Its guard calls \<^verbatim>\<open>tk.abort(400, "resourceID field is required")\<close>.
\<close>

theorem metadata_aborts_on_missing_resourceID:
  "show_dsl_metadata demo_env [] [] = Inl (Abort 400 ''resourceID field is required'') \<and>
   show_dsl_metadata demo_env [] [] \<noteq> Inr (create_error_response ''resourceID'' ''field required'')"
  by (simp add: show_dsl_metadata_def dict_get_def)

text \<open>
  C1, amended: when \<^verbatim>\<open>resourceID\<close> is absent or falsy, the metadata action aborts with
  status 400, and the query action returns the missing-field envelope for
  \<^verbatim>\<open>resourceID\<close> provided that the host's authorization check does not raise.
\<close>

theorem missing_resourceID:
  "\<not> truthy (dict_get data_dict ''resourceID'' PNone) \<Longrightarrow>
     show_dsl_metadata E ctx data_dict = Inl (Abort 400 ''resourceID field is required'') \<and>
     (check_access E ''resource_show'' ctx [(''id'', dict_get data_dict ''resourceID'' PNone)] = None \<longrightarrow>
        dsl_query_data E ctx data_dict =
          Inr (PDict [(''detail'',
                 PList [PDict [(''loc'', PList [PStr ''query'', PStr ''resourceID'']),
                               (''msg'', PStr ''field required''),
                               (''type'', PStr ''value_error.missing'')]])]))"
  by (simp add: show_dsl_metadata_def dsl_query_data_def query_data_def create_error_response_def)

theorem missing_resourceID_witness:
  "\<not> truthy (dict_get [(''resourceID'', PStr '''')] ''resourceID'' PNone) \<and>
   check_access demo_env ''resource_show'' []
     [(''id'', dict_get [(''resourceID'', PStr '''')] ''resourceID'' PNone)] = None \<and>
   show_dsl_metadata demo_env [] [(''resourceID'', PStr '''')] =
     Inl (Abort 400 ''resourceID field is required'') \<and>
   dsl_query_data demo_env [] [(''resourceID'', PStr '''')] =
     Inr (PDict [(''detail'',
            PList [PDict [(''loc'', PList [PStr ''query'', PStr ''resourceID'']),
                          (''msg'', PStr ''field required''),
                          (''type'', PStr ''value_error.missing'')]])])"
  using missing_resourceID [of "[(''resourceID'', PStr '''')]" demo_env "[]"]
  by (simp add: dict_get_def demo_env_def)

section \<open>A missing payload\<close>

text \<open>
  C6, as stated, fails: the query action checks access before it looks at the payload,
  so a caller the host refuses gets the host's exception, not the envelope.
\<close>

theorem unauthorized_query_without_payload_raises:
  "truthy (dict_get [(''resourceID'', PStr ''r1'')] ''resourceID'' PNone) \<and>
   \<not> truthy (dict_get [(''resourceID'', PStr ''r1'')] ''payload'' PNone) \<and>
   dsl_query_data denied_env [] [(''resourceID'', PStr ''r1'')] =
     Inl (Raised (HostError ''NotAuthorized'' ''not authorized to read resource''))"
  by (simp add: dsl_query_data_def dict_get_def denied_env_def demo_env_def)

text \<open>
  C6, amended: for a truthy \<^verbatim>\<open>resourceID\<close> and an absent or falsy \<^verbatim>\<open>payload\<close>, the query
  action returns the missing-field envelope for \<^verbatim>\<open>payload\<close> provided that the host's
  authorization check does not raise.
\<close>

theorem missing_payload:
  "truthy (dict_get data_dict ''resourceID'' PNone) \<Longrightarrow>
   \<not> truthy (dict_get data_dict ''payload'' PNone) \<Longrightarrow>
   check_access E ''resource_show'' ctx [(''id'', dict_get data_dict ''resourceID'' PNone)] = None \<Longrightarrow>
   dsl_query_data E ctx data_dict =
     Inr (PDict [(''detail'',
            PList [PDict [(''loc'', PList [PStr ''query'', PStr ''payload'']),
                          (''msg'', PStr ''payload field required''),
                          (''type'', PStr ''value_error.missing'')]])])"
  by (simp add: dsl_query_data_def query_data_def create_error_response_def)

theorem missing_payload_witness:
  "truthy (dict_get [(''resourceID'', PStr ''r1''), (''payload'', PDict [])] ''resourceID'' PNone) \<and>
   \<not> truthy (dict_get [(''resourceID'', PStr ''r1''), (''payload'', PDict [])] ''payload'' PNone) \<and>
   check_access demo_env ''resource_show'' []
     [(''id'', dict_get [(''resourceID'', PStr ''r1''), (''payload'', PDict [])] ''resourceID'' PNone)] = None \<and>
   dsl_query_data demo_env [] [(''resourceID'', PStr ''r1''), (''payload'', PDict [])] =
     Inr (PDict [(''detail'',
            PList [PDict [(''loc'', PList [PStr ''query'', PStr ''payload'']),
                          (''msg'', PStr ''payload field required''),
                          (''type'', PStr ''value_error.missing'')]])])"
  using missing_payload [of "[(''resourceID'', PStr ''r1''), (''payload'', PDict [])]" demo_env "[]"]
  by (simp add: dict_get_def demo_env_def)

section \<open>Authorization comes before validation\<close>

text \<open>
  C9: the query action passes whatever \<^verbatim>\<open>data_dict.get("resourceID")\<close> gives, \<open>PNone\<close>
  when the key is absent, to the authorization check, and an exception of the check
  reaches the caller whatever the identifier and the payload are; hence a run that
  returns a missing-field envelope is one in which the check did not raise.
\<close>

theorem access_check_precedes_validation:
  "(check_access E ''resource_show'' ctx [(''id'', dict_get data_dict ''resourceID'' PNone)] = Some e \<longrightarrow>
      dsl_query_data E ctx data_dict = Inl (Raised e)) \<and>
   (map_of data_dict ''resourceID'' = None \<and>
    check_access E ''resource_show'' ctx [(''id'', PNone)] = Some e \<longrightarrow>
      dsl_query_data E ctx data_dict = Inl (Raised e)) \<and>
   (dsl_query_data E ctx data_dict = Inr (create_error_response field message) \<longrightarrow>
      check_access E ''resource_show'' ctx [(''id'', dict_get data_dict ''resourceID'' PNone)] = None)"
  by (auto simp: dsl_query_data_def dict_get_def split: option.splits)

theorem access_check_precedes_validation_witness:
  "map_of ([] :: (string \<times> pyval) list) ''resourceID'' = None \<and>
   check_access denied_env ''resource_show'' [] [(''id'', PNone)] =
     Some (HostError ''NotAuthorized'' ''not authorized to read resource'') \<and>
   dsl_query_data denied_env [] [] =
     Inl (Raised (HostError ''NotAuthorized'' ''not authorized to read resource'')) \<and>
   dsl_query_data demo_env [] [] = Inr (create_error_response ''resourceID'' ''field required'') \<and>
   check_access demo_env ''resource_show'' [] [(''id'', dict_get [] ''resourceID'' PNone)] = None"
proof -
  have denied: "check_access denied_env ''resource_show'' [] [(''id'', PNone)] =
     Some (HostError ''NotAuthorized'' ''not authorized to read resource'')"
    by (simp add: denied_env_def)
  have returned: "dsl_query_data demo_env [] [] =
     Inr (create_error_response ''resourceID'' ''field required'')"
    by (simp add: dsl_query_data_def query_data_def dict_get_def demo_env_def)
  from access_check_precedes_validation [where E = denied_env and ctx = "[]" and data_dict = "[]"
      and e = "HostError ''NotAuthorized'' ''not authorized to read resource''"] denied
  have "dsl_query_data denied_env [] [] =
     Inl (Raised (HostError ''NotAuthorized'' ''not authorized to read resource''))"
    by simp
  moreover
  from access_check_precedes_validation [where E = demo_env and ctx = "[]" and data_dict = "[]"
      and field = "''resourceID''" and message = "''field required''"] returned
  have "check_access demo_env ''resource_show'' [] [(''id'', dict_get [] ''resourceID'' PNone)] = None"
    by simp
  ultimately show ?thesis
    using denied returned by simp
qed

section \<open>Failures behind the metadata action\<close>

text \<open>
  C2: with no datastore read URL configured, \<^verbatim>\<open>_get_table_parser\<close> raises a
  \<open>DatabaseConnectionError\<close>; \<^verbatim>\<open>get_table_metadata\<close> catches it and returns the empty
  list, so the handler of \<^verbatim>\<open>show_metadata\<close> is never entered and the action answers
  with \<^verbatim>\<open>success: true\<close>, an empty schema and an empty message.
\<close>

theorem metadata_failure_reported_as_success:
  "get_table_parser unconfigured_env (PStr ''r1'') =
     Inl (DatabaseConnectionError
            ''Database connection failed: Database read URL not configured'') \<and>
   show_dsl_metadata unconfigured_env [] [(''resourceID'', PStr ''r1'')] =
     Inr (PDict [(''success'', PBool True),
                 (''schema'', PList []),
                 (''name'', PStr ''r1''),
                 (''resource_id'', PStr ''r1''),
                 (''message'', PStr '''')])"
  by (simp add: show_dsl_metadata_def show_metadata_def get_table_metadata_def
      get_table_metadata_body_def get_table_parser_def get_table_parser_body_def
      py_lower_def dict_get_def unconfigured_env_def demo_env_def Let_def)

section \<open>Faults at the boundary of the actions\<close>









section \<open>Facts about filtering, naming and sorting\<close>

lemma filter_fields_members:
  "filter_fields m fs = Inr r \<Longrightarrow> f \<in> set r \<Longrightarrow>
   \<exists>fid. map_of f ''fid'' = Some fid \<and> fid \<notin> set COLUMNS_TO_EXCLUDE \<and>
         map_of f ''name'' = Some (dict_get m fid fid)"
proof (induction fs arbitrary: r)
  case Nil
  then show ?case by simp
next
  case (Cons g gs)
  then show ?case
    by (auto simp: update_conv' split: option.splits sum.splits if_splits)
qed

lemma filter_fields_Inr:
  "list_all (\<lambda>f. map_of f ''fid'' \<noteq> None) fs \<Longrightarrow>
   filter_fields m fs =
     Inr (map (\<lambda>f. AList.update ''name'' (dict_get m (dict_get f ''fid'' []) (dict_get f ''fid'' [])) f)
            (filter (\<lambda>f. dict_get f ''fid'' [] \<notin> set COLUMNS_TO_EXCLUDE) fs))"
  by (induction fs) (auto simp: dict_get_def split: option.splits)

lemma name_keys_Inr:
  "list_all (\<lambda>f. map_of f ''name'' \<noteq> None) xs \<Longrightarrow>
   name_keys xs = Inr (map (\<lambda>f. dict_get f ''name'' []) xs)"
  by (induction xs) (auto simp: dict_get_def)

lemma map_snd_insort_key:
  "\<forall>p \<in> set ys. fst p = g (snd p) \<Longrightarrow>
   map snd (insort_key fst (g x, x) ys) = insort_key g x (map snd ys)"
  by (induction ys) auto

lemma decorated_sort:
  "map snd (sort_key fst (zip (map g xs) xs)) = sort_key g xs"
proof (induction xs)
  case Nil
  then show ?case by simp
next
  case (Cons x xs)
  have "\<forall>p \<in> set (sort_key fst (zip (map g xs) xs)). fst p = g (snd p)"
    by (auto simp: set_zip)
  then show ?case
    using Cons by (simp add: map_snd_insort_key)
qed

lemma sorted_by_name_Inr:
  "list_all (\<lambda>f. map_of f ''name'' \<noteq> None) xs \<Longrightarrow>
   sorted_by_name xs = Inr (sort_key (\<lambda>f. dict_get f ''name'' []) xs)"
  by (simp add: sorted_by_name_def name_keys_Inr decorated_sort)

lemma filter_fields_named:
  "filter_fields m fs = Inr r \<Longrightarrow> list_all (\<lambda>f. map_of f ''name'' \<noteq> None) r"
  using filter_fields_members [of m fs r] by (fastforce simp: list_all_iff)

lemma body_sorted:
  "get_table_metadata_body E t True =
     (case get_table_metadata_body E t False of Inl e \<Rightarrow> Inl e | Inr F \<Rightarrow> sorted_by_name F)"
  by (simp add: get_table_metadata_body_def Let_def split: sum.splits)

lemma body_named:
  "get_table_metadata_body E t False = Inr F \<Longrightarrow>
   list_all (\<lambda>f. map_of f ''name'' \<noteq> None) F"
  by (auto simp: get_table_metadata_body_def Let_def split: sum.splits
      dest: filter_fields_named)

lemma get_table_metadata_sorted:
  "get_table_metadata E t False = Inr F \<Longrightarrow>
   get_table_metadata E t True = Inr (sort_key (\<lambda>f. dict_get f ''name'' []) F)"
proof (cases "get_table_metadata_body E t False")
  case (Inl e)
  assume "get_table_metadata E t False = Inr F"
  with Inl show ?thesis
    by (auto simp: get_table_metadata_def body_sorted)
next
  case (Inr G)
  assume "get_table_metadata E t False = Inr F"
  with Inr have "G = F"
    by (simp add: get_table_metadata_def)
  with Inr body_named [of E t F] show ?thesis
    by (simp add: get_table_metadata_def body_sorted sorted_by_name_Inr)
qed

lemma get_table_metadata_parser_order:
  "get_table_parser E t = Inr p \<Longrightarrow> raw_fields p = Inr fs \<Longrightarrow>
   list_all (\<lambda>f. map_of f ''fid'' \<noteq> None) fs \<Longrightarrow>
   get_table_metadata E t False =
     Inr (map (\<lambda>f. AList.update ''name''
                 (dict_get (get_name_title_map E t) (dict_get f ''fid'' []) (dict_get f ''fid'' [])) f)
            (filter (\<lambda>f. dict_get f ''fid'' [] \<notin> set COLUMNS_TO_EXCLUDE) fs))"
  by (simp add: get_table_metadata_def get_table_metadata_body_def Let_def filter_fields_Inr)

lemma get_table_metadata_members:
  "get_table_metadata E t s = Inr r \<Longrightarrow> f \<in> set r \<Longrightarrow>
   \<exists>fid. map_of f ''fid'' = Some fid \<and> fid \<notin> set COLUMNS_TO_EXCLUDE \<and>
         map_of f ''name'' = Some (dict_get (get_name_title_map E t) fid fid)"
proof -
  assume r: "get_table_metadata E t s = Inr r" and f: "f \<in> set r"
  obtain F where F: "get_table_metadata E t False = Inr F"
    using get_table_metadata_total by blast
  have "set r = set F"
  proof (cases s)
    case True
    with r F get_table_metadata_sorted [of E t F]
    have "r = sort_key (\<lambda>f. dict_get f ''name'' []) F" by simp
    then show ?thesis by simp
  next
    case False
    with r F show ?thesis by simp
  qed
  with f have "f \<in> set F" by simp
  moreover from F have "F = [] \<or> (\<exists>p fs. filter_fields (get_name_title_map E t) fs = Inr F)"
    by (auto simp: get_table_metadata_def get_table_metadata_body_def Let_def split: sum.splits)
  ultimately show ?thesis
    using filter_fields_members by fastforce
qed

lemma show_dsl_metadata_Inr:
  "show_dsl_metadata E ctx data_dict = Inr r \<Longrightarrow>
   \<exists>s F. truthy (dict_get data_dict ''resourceID'' PNone) \<and>
     get_table_metadata E (dict_get data_dict ''resourceID'' PNone) s = Inr F \<and>
     r = PDict [(''success'', PBool True),
                (''schema'', PList (map py_field F)),
                (''name'', dict_get data_dict ''resourceID'' PNone),
                (''resource_id'', dict_get data_dict ''resourceID'' PNone),
                (''message'', PStr '''')]"
proof -
  assume a: "show_dsl_metadata E ctx data_dict = Inr r"
  let ?rid = "dict_get data_dict ''resourceID'' PNone"
  from a have t: "truthy ?rid"
    by (auto simp: show_dsl_metadata_def Let_def split: if_splits)
  from a t obtain s where r: "r = show_metadata E ?rid s"
    by (auto simp: show_dsl_metadata_def Let_def split: option.splits sum.splits)
  obtain F where F: "get_table_metadata E ?rid s = Inr F"
    using get_table_metadata_total by blast
  with r t show ?thesis
    by (auto simp: show_metadata_def)
qed

lemma show_dsl_metadata_run:
  "truthy (dict_get data_dict ''resourceID'' PNone) \<Longrightarrow>
   check_access E ''resource_show'' ctx [(''id'', dict_get data_dict ''resourceID'' PNone)] = None \<Longrightarrow>
   dict_get data_dict ''sort'' (PStr ''false'') = PStr s \<Longrightarrow>
   get_table_metadata E (dict_get data_dict ''resourceID'' PNone) (map lower_char s = ''true'') = Inr F \<Longrightarrow>
   show_dsl_metadata E ctx data_dict =
     Inr (PDict [(''success'', PBool True),
                 (''schema'', PList (map py_field F)),
                 (''name'', dict_get data_dict ''resourceID'' PNone),
                 (''resource_id'', dict_get data_dict ''resourceID'' PNone),
                 (''message'', PStr '''')])"
  by (simp add: show_dsl_metadata_def show_metadata_def py_lower_def Let_def)

lemma item_get_py_field: "item_get (py_field f) k = map_option PStr (map_of f k)"
  by (simp add: item_get_def py_field_def map_of_map)

lemma json_row_keys: "json_row enc items = Inr items' \<Longrightarrow> map fst items' = map fst items"
proof (induction items arbitrary: items')
  case Nil
  then show ?case by simp
next
  case (Cons kv items)
  then show ?case
    by (cases kv) (auto split: sum.splits)
qed

lemma json_rows_members:
  "json_rows enc rows = Inr rows' \<Longrightarrow> row \<in> set rows' \<Longrightarrow>
   \<exists>items src. row = PDict items \<and> src \<in> set rows \<and> map fst items = map fst src"
proof (induction rows arbitrary: rows')
  case Nil
  then show ?case by simp
next
  case (Cons r rows)
  from Cons.prems(1) obtain r' rs' where
    r': "json_row enc r = Inr r'" and rs': "json_rows enc rows = Inr rs'" and
    eq: "rows' = PDict r' # rs'"
    by (auto split: sum.splits)
  from Cons.prems(2) eq have "row = PDict r' \<or> row \<in> set rs'"
    by simp
  then show ?case
  proof
    assume "row = PDict r'"
    with json_row_keys [OF r'] show ?thesis
      by (intro exI [of _ r'] exI [of _ r]) simp
  next
    assume "row \<in> set rs'"
    from Cons.IH [OF rs' this] obtain items src where
      "row = PDict items" "src \<in> set rows" "map fst items = map fst src"
      by blast
    then show ?thesis
      by (intro exI [of _ items] exI [of _ src]) simp
  qed
qed

lemma get_data_from_payload_members:
  "get_data_from_payload E t payload = Inr rows \<Longrightarrow> row \<in> set rows \<Longrightarrow>
   \<exists>items. row = PDict items \<and> set (map fst items) \<inter> set COLUMNS_TO_EXCLUDE = {}"
proof -
  assume a: "get_data_from_payload E t payload = Inr rows" and m: "row \<in> set rows"
  from a obtain result where
    j: "json_rows (json_value E)
          (map (filter (\<lambda>(key, v). key \<notin> set COLUMNS_TO_EXCLUDE)) result) = Inr rows"
    by (auto simp: get_data_from_payload_def get_data_from_payload_body_def Let_def
        split: sum.splits)
  from json_rows_members [OF j m] obtain items src where
    row: "row = PDict items" and
    src: "src \<in> set (map (filter (\<lambda>(key, v). key \<notin> set COLUMNS_TO_EXCLUDE)) result)" and
    keys: "map fst items = map fst src"
    by blast
  from src have "set (map fst src) \<inter> set COLUMNS_TO_EXCLUDE = {}"
    by auto
  with keys have "set (map fst items) \<inter> set COLUMNS_TO_EXCLUDE = {}"
    by metis
  with row show ?thesis by blast
qed

lemma query_data_rows:
  "row \<in> set (envelope_items (query_data E rid payload) ''data'') \<Longrightarrow>
   \<exists>rows. get_data_from_payload E rid payload = Inr rows \<and> row \<in> set rows"
  by (auto simp: query_data_def envelope_items_def create_error_response_def
      split: if_splits sum.splits exn.splits)

text \<open>The two actions on the sample host.\<close>

lemma demo_metadata:
  "show_dsl_metadata demo_env [] [(''resourceID'', PStr ''r1'')] =
     Inr (PDict [(''success'', PBool True),
                 (''schema'',
                    PList [PDict [(''fid'', PStr ''depth''), (''semanticType'', PStr ''quantitative''),
                                  (''name'', PStr ''depth'')],
                           PDict [(''fid'', PStr ''well''), (''name'', PStr ''Well name''),
                                  (''semanticType'', PStr ''nominal'')]]),
                 (''name'', PStr ''r1''),
                 (''resource_id'', PStr ''r1''),
                 (''message'', PStr '''')])"
  by (simp add: show_dsl_metadata_def show_metadata_def get_table_metadata_def
      get_table_metadata_body_def get_table_parser_def get_table_parser_body_def
      get_name_title_map_def get_name_title_map_body_def field_label_def
      py_lower_def py_field_def dict_get_def demo_env_def demo_parser_def Let_def
      COLUMNS_TO_EXCLUDE_def lower_char_def)

lemma demo_query:
  "dsl_query_data demo_env []
     [(''resourceID'', PStr ''r1''), (''payload'', PDict [(''workflow'', PList [])])] =
     Inr (PDict [(''success'', PBool True),
                 (''data'', PList [PDict [(''well'', PStr ''A1''), (''depth'', PInt 30)],
                                   PDict [(''well'', PStr ''B7''), (''depth'', PInt 12)]]),
                 (''message'', PStr '''')])"
  by (simp add: dsl_query_data_def query_data_def dict_get_def demo_env_def demo_parser_def
      get_data_from_payload_def get_data_from_payload_body_def get_table_parser_def
      get_table_parser_body_def COLUMNS_TO_EXCLUDE_def)

lemma demo_unsorted:
  "get_table_metadata demo_env (PStr ''r1'') False =
     Inr [[(''fid'', ''depth''), (''semanticType'', ''quantitative''), (''name'', ''depth'')],
          [(''fid'', ''well''), (''name'', ''Well name''), (''semanticType'', ''nominal'')]]"
  by (simp add: get_table_metadata_def
      get_table_metadata_body_def get_table_parser_def get_table_parser_body_def
      get_name_title_map_def get_name_title_map_body_def field_label_def
      dict_get_def demo_env_def demo_parser_def Let_def COLUMNS_TO_EXCLUDE_def)

lemma demo_sorting:
  "sort_key (\<lambda>f. dict_get f ''name'' [])
     [[(''fid'', ''depth''), (''semanticType'', ''quantitative''), (''name'', ''depth'')],
      [(''fid'', ''well''), (''name'', ''Well name''), (''semanticType'', ''nominal'')]] =
     [[(''fid'', ''well''), (''name'', ''Well name''), (''semanticType'', ''nominal'')],
      [(''fid'', ''depth''), (''semanticType'', ''quantitative''), (''name'', ''depth'')]]"
  by (simp add: dict_get_def less_eq_char_def less_char_def)

lemma unlabelled_metadata:
  "show_dsl_metadata unlabelled_env [] [(''resourceID'', PStr ''r1'')] =
     Inr (PDict [(''success'', PBool True),
                 (''schema'',
                    PList [PDict [(''fid'', PStr ''depth''), (''semanticType'', PStr ''quantitative''),
                                  (''name'', PStr ''depth'')],
                           PDict [(''fid'', PStr ''well''), (''name'', PStr ''well''),
                                  (''semanticType'', PStr ''nominal'')]]),
                 (''name'', PStr ''r1''),
                 (''resource_id'', PStr ''r1''),
                 (''message'', PStr '''')])"
  by (simp add: show_dsl_metadata_def show_metadata_def get_table_metadata_def
      get_table_metadata_body_def get_table_parser_def get_table_parser_body_def
      get_name_title_map_def get_name_title_map_body_def
      py_lower_def py_field_def dict_get_def unlabelled_env_def demo_env_def demo_parser_def
      Let_def COLUMNS_TO_EXCLUDE_def lower_char_def)

section \<open>The excluded columns\<close>

text \<open>
  C4: every record of the schema the metadata action returns has a \<^verbatim>\<open>fid\<close> outside
  \<^verbatim>\<open>_id\<close>, \<^verbatim>\<open>id\<close>, \<^verbatim>\<open>_full_text\<close>, and every row of the data the query action returns
  is a dictionary with none of these three keys.
\<close>

theorem excluded_columns_never_returned:
  "(show_dsl_metadata E ctx data_dict = Inr r \<and> f \<in> set (envelope_items r ''schema'') \<longrightarrow>
      (\<exists>fid. item_get f ''fid'' = Some (PStr fid) \<and> fid \<notin> {''_id'', ''id'', ''_full_text''})) \<and>
   (dsl_query_data E ctx data_dict = Inr r \<and> row \<in> set (envelope_items r ''data'') \<longrightarrow>
      (\<exists>items. row = PDict items) \<and>
      set (item_keys row) \<inter> {''_id'', ''id'', ''_full_text''} = {})"
proof (rule conjI; rule impI)
  assume "show_dsl_metadata E ctx data_dict = Inr r \<and> f \<in> set (envelope_items r ''schema'')"
  then obtain s F where
    F: "get_table_metadata E (dict_get data_dict ''resourceID'' PNone) s = Inr F" and
    f: "f \<in> set (map py_field F)"
    using show_dsl_metadata_Inr [of E ctx data_dict r]
    by (auto simp: envelope_items_def)
  from f obtain g where g: "g \<in> set F" and fg: "f = py_field g"
    by auto
  from get_table_metadata_members [OF F g] obtain fid where
    "map_of g ''fid'' = Some fid" "fid \<notin> set COLUMNS_TO_EXCLUDE"
    by blast
  with fg show "\<exists>fid. item_get f ''fid'' = Some (PStr fid) \<and> fid \<notin> {''_id'', ''id'', ''_full_text''}"
    by (simp add: item_get_py_field COLUMNS_TO_EXCLUDE_def)
next
  assume a: "dsl_query_data E ctx data_dict = Inr r \<and> row \<in> set (envelope_items r ''data'')"
  then have "r = query_data E (dict_get data_dict ''resourceID'' PNone)
                   (dict_get data_dict ''payload'' PNone)"
    by (auto simp: dsl_query_data_def Let_def split: option.splits)
  with a obtain rows where
    "get_data_from_payload E (dict_get data_dict ''resourceID'' PNone)
       (dict_get data_dict ''payload'' PNone) = Inr rows" "row \<in> set rows"
    using query_data_rows by blast
  then obtain items where
    "row = PDict items" "set (map fst items) \<inter> set COLUMNS_TO_EXCLUDE = {}"
    using get_data_from_payload_members by blast
  then show "(\<exists>items. row = PDict items) \<and>
      set (item_keys row) \<inter> {''_id'', ''id'', ''_full_text''} = {}"
    by (simp add: item_keys_def COLUMNS_TO_EXCLUDE_def)
qed

theorem excluded_columns_never_returned_witness:
  "PDict [(''fid'', PStr ''well''), (''name'', PStr ''Well name''), (''semanticType'', PStr ''nominal'')]
     \<in> set (envelope_items
          (PDict [(''success'', PBool True),
                 (''schema'',
                    PList [PDict [(''fid'', PStr ''depth''), (''semanticType'', PStr ''quantitative''),
                                  (''name'', PStr ''depth'')],
                           PDict [(''fid'', PStr ''well''), (''name'', PStr ''Well name''),
                                  (''semanticType'', PStr ''nominal'')]]),
                 (''name'', PStr ''r1''),
                 (''resource_id'', PStr ''r1''),
                 (''message'', PStr '''')]) ''schema'') \<and>
   item_get (PDict [(''fid'', PStr ''well''), (''name'', PStr ''Well name''),
                    (''semanticType'', PStr ''nominal'')]) ''fid'' = Some (PStr ''well'') \<and>
   ''well'' \<notin> {''_id'', ''id'', ''_full_text''} \<and>
   PDict [(''well'', PStr ''A1''), (''depth'', PInt 30)]
     \<in> set (envelope_items
          (PDict [(''success'', PBool True),
                 (''data'', PList [PDict [(''well'', PStr ''A1''), (''depth'', PInt 30)],
                                   PDict [(''well'', PStr ''B7''), (''depth'', PInt 12)]]),
                 (''message'', PStr '''')]) ''data'') \<and>
   set (item_keys (PDict [(''well'', PStr ''A1''), (''depth'', PInt 30)])) \<inter>
     {''_id'', ''id'', ''_full_text''} = {}"
  (is "?f \<in> set (envelope_items ?M ''schema'') \<and> _ \<and> _ \<and>
       ?row \<in> set (envelope_items ?Q ''data'') \<and> _")
proof -
  have f: "?f \<in> set (envelope_items ?M ''schema'')"
    by (simp add: envelope_items_def)
  have row: "?row \<in> set (envelope_items ?Q ''data'')"
    by (simp add: envelope_items_def)
  from excluded_columns_never_returned [where E = demo_env and ctx = "[]" and r = ?M and f = ?f
      and data_dict = "[(''resourceID'', PStr ''r1'')]", THEN conjunct1, THEN mp,
      OF conjI [OF demo_metadata f]]
  obtain fid where fid: "item_get ?f ''fid'' = Some (PStr fid)"
    and kept: "fid \<notin> {''_id'', ''id'', ''_full_text''}"
    by auto
  from fid have well: "fid = ''well''"
    by (simp add: item_get_def)
  note keys = excluded_columns_never_returned [where E = demo_env and ctx = "[]" and r = ?Q
      and row = ?row
      and data_dict = "[(''resourceID'', PStr ''r1''), (''payload'', PDict [(''workflow'', PList [])])]",
      THEN conjunct2, THEN mp, OF conjI [OF demo_query row], THEN conjunct2]
  from f fid kept well row keys show ?thesis
    by (intro conjI) simp_all
qed

section \<open>The sort flag\<close>

text \<open>
  C8, as stated, fails: the action reads the flag with
  \<^verbatim>\<open>data_dict.get("sort", "false").lower()\<close>, so the boolean \<^verbatim>\<open>True\<close> raises
  \<open>AttributeError\<close> instead of sorting.
\<close>

theorem boolean_sort_flag_raises:
  "show_dsl_metadata demo_env [] [(''resourceID'', PStr ''r1''), (''sort'', PBool True)] =
     Inl (Raised (AttributeError ''bool'' ''lower''))"
  by (simp add: show_dsl_metadata_def py_lower_def dict_get_def demo_env_def)

lemma lower_false: "map lower_char ''false'' \<noteq> ''true''"
  by (simp add: lower_char_def)

text \<open>
  C8, amended: the flag is an optional string that defaults to \<^verbatim>\<open>"false"\<close>. With a
  truthy \<^verbatim>\<open>resourceID\<close> and an authorized caller, a call without \<^verbatim>\<open>sort\<close> returns the
  fields \<open>F\<close> that \<^verbatim>\<open>get_table_metadata\<close> gives unsorted, which are the parser's raw
  fields in the parser's order, without the excluded ones and with their names set; a
  call whose \<^verbatim>\<open>sort\<close> is a string that lower-cases to \<^verbatim>\<open>"true"\<close> returns \<open>F\<close> sorted
  stably by name.
\<close>

theorem sort_flag_is_a_string:
  assumes rid: "dict_get data_dict ''resourceID'' PNone = rid" "truthy rid"
    and access: "check_access E ''resource_show'' ctx [(''id'', rid)] = None"
    and F: "get_table_metadata E rid False = Inr F"
  shows "(map_of data_dict ''sort'' = None \<longrightarrow>
            show_dsl_metadata E ctx data_dict =
              Inr (PDict [(''success'', PBool True),
                          (''schema'', PList (map py_field F)),
                          (''name'', rid), (''resource_id'', rid), (''message'', PStr '''')])) \<and>
         (map_of data_dict ''sort'' = Some (PStr s) \<and> map lower_char s = ''true'' \<longrightarrow>
            show_dsl_metadata E ctx data_dict =
              Inr (PDict [(''success'', PBool True),
                          (''schema'',
                             PList (map py_field (sort_key (\<lambda>f. dict_get f ''name'' []) F))),
                          (''name'', rid), (''resource_id'', rid), (''message'', PStr '''')])) \<and>
         (get_table_parser E rid = Inr p \<and> raw_fields p = Inr fs \<and>
          list_all (\<lambda>f. map_of f ''fid'' \<noteq> None) fs \<longrightarrow>
            F = map (\<lambda>f. AList.update ''name''
                       (dict_get (get_name_title_map E rid) (dict_get f ''fid'' [])
                          (dict_get f ''fid'' [])) f)
                  (filter (\<lambda>f. dict_get f ''fid'' [] \<notin> set COLUMNS_TO_EXCLUDE) fs))"
proof (intro conjI impI)
  assume "map_of data_dict ''sort'' = None"
  then have "dict_get data_dict ''sort'' (PStr ''false'') = PStr ''false''"
    by (simp add: dict_get_def)
  with rid access F lower_false
  show "show_dsl_metadata E ctx data_dict =
              Inr (PDict [(''success'', PBool True),
                          (''schema'', PList (map py_field F)),
                          (''name'', rid), (''resource_id'', rid), (''message'', PStr '''')])"
    using show_dsl_metadata_run [of data_dict E ctx "''false''" F] by simp
next
  assume a: "map_of data_dict ''sort'' = Some (PStr s) \<and> map lower_char s = ''true''"
  then have "dict_get data_dict ''sort'' (PStr ''false'') = PStr s"
    by (simp add: dict_get_def)
  with a rid access get_table_metadata_sorted [OF F]
  show "show_dsl_metadata E ctx data_dict =
              Inr (PDict [(''success'', PBool True),
                          (''schema'',
                             PList (map py_field (sort_key (\<lambda>f. dict_get f ''name'' []) F))),
                          (''name'', rid), (''resource_id'', rid), (''message'', PStr '''')])"
    using show_dsl_metadata_run
      [of data_dict E ctx s "sort_key (\<lambda>f. dict_get f ''name'' []) F"] by simp
next
  assume "get_table_parser E rid = Inr p \<and> raw_fields p = Inr fs \<and>
          list_all (\<lambda>f. map_of f ''fid'' \<noteq> None) fs"
  with F get_table_metadata_parser_order [of E rid p fs]
  show "F = map (\<lambda>f. AList.update ''name''
                       (dict_get (get_name_title_map E rid) (dict_get f ''fid'' [])
                          (dict_get f ''fid'' [])) f)
                  (filter (\<lambda>f. dict_get f ''fid'' [] \<notin> set COLUMNS_TO_EXCLUDE) fs)"
    by simp
qed

theorem sort_flag_is_a_string_witness:
  "show_dsl_metadata demo_env [] [(''resourceID'', PStr ''r1'')] =
     Inr (PDict [(''success'', PBool True),
                 (''schema'',
                    PList [PDict [(''fid'', PStr ''depth''), (''semanticType'', PStr ''quantitative''),
                                  (''name'', PStr ''depth'')],
                           PDict [(''fid'', PStr ''well''), (''name'', PStr ''Well name''),
                                  (''semanticType'', PStr ''nominal'')]]),
                 (''name'', PStr ''r1''), (''resource_id'', PStr ''r1''), (''message'', PStr '''')]) \<and>
   show_dsl_metadata demo_env [] [(''resourceID'', PStr ''r1''), (''sort'', PStr ''True'')] =
     Inr (PDict [(''success'', PBool True),
                 (''schema'',
                    PList [PDict [(''fid'', PStr ''well''), (''name'', PStr ''Well name''),
                                  (''semanticType'', PStr ''nominal'')],
                           PDict [(''fid'', PStr ''depth''), (''semanticType'', PStr ''quantitative''),
                                  (''name'', PStr ''depth'')]]),
                 (''name'', PStr ''r1''), (''resource_id'', PStr ''r1''), (''message'', PStr '''')])"
proof -
  have rid: "dict_get [(''resourceID'', PStr ''r1'')] ''resourceID'' PNone = PStr ''r1''"
    "dict_get [(''resourceID'', PStr ''r1''), (''sort'', PStr ''True'')] ''resourceID'' PNone = PStr ''r1''"
    "truthy (PStr ''r1'')"
    by (simp_all add: dict_get_def)
  have access: "check_access demo_env ''resource_show'' [] [(''id'', PStr ''r1'')] = None"
    by (simp add: demo_env_def)
  have omitted: "map_of [(''resourceID'', PStr ''r1'')] ''sort'' = None"
    by simp
  have given: "map_of [(''resourceID'', PStr ''r1''), (''sort'', PStr ''True'')] ''sort'' = Some (PStr ''True'')"
    by simp
  have lowered: "map lower_char ''True'' = ''true''"
    by code_simp
  from sort_flag_is_a_string [OF rid(1) rid(3) access demo_unsorted] omitted
  have one: "show_dsl_metadata demo_env [] [(''resourceID'', PStr ''r1'')] =
     Inr (PDict [(''success'', PBool True),
                 (''schema'',
                    PList [PDict [(''fid'', PStr ''depth''), (''semanticType'', PStr ''quantitative''),
                                  (''name'', PStr ''depth'')],
                           PDict [(''fid'', PStr ''well''), (''name'', PStr ''Well name''),
                                  (''semanticType'', PStr ''nominal'')]]),
                 (''name'', PStr ''r1''), (''resource_id'', PStr ''r1''), (''message'', PStr '''')])"
    by (simp add: py_field_def)
  note sorted_run = sort_flag_is_a_string [OF rid(2) rid(3) access demo_unsorted,
      where s = "''True''", THEN conjunct2, THEN conjunct1, THEN mp, OF conjI [OF given lowered]]
  have "show_dsl_metadata demo_env [] [(''resourceID'', PStr ''r1''), (''sort'', PStr ''True'')] =
     Inr (PDict [(''success'', PBool True),
                 (''schema'',
                    PList (map py_field (sort_key (\<lambda>f. dict_get f ''name'' [])
                      [[(''fid'', ''depth''), (''semanticType'', ''quantitative''), (''name'', ''depth'')],
                       [(''fid'', ''well''), (''name'', ''Well name''), (''semanticType'', ''nominal'')]]))),
                 (''name'', PStr ''r1''), (''resource_id'', PStr ''r1''), (''message'', PStr '''')])"
    by (rule sorted_run)
  then have two: "show_dsl_metadata demo_env [] [(''resourceID'', PStr ''r1''), (''sort'', PStr ''True'')] =
     Inr (PDict [(''success'', PBool True),
                 (''schema'',
                    PList [PDict [(''fid'', PStr ''well''), (''name'', PStr ''Well name''),
                                  (''semanticType'', PStr ''nominal'')],
                           PDict [(''fid'', PStr ''depth''), (''semanticType'', PStr ''quantitative''),
                                  (''name'', PStr ''depth'')]]),
                 (''name'', PStr ''r1''), (''resource_id'', PStr ''r1''), (''message'', PStr '''')])"
    unfolding demo_sorting by (simp add: py_field_def)
  from one two show ?thesis by (rule conjI)
qed

section \<open>Names and labels\<close>

lemma find_snoc:
  "find P (xs @ [x]) =
     (case find P xs of Some y \<Rightarrow> Some y | None \<Rightarrow> if P x then Some x else None)"
  by (induction xs) auto

lemma name_map_loop_lookup:
  "name_map_loop fs m0 = Inr m \<Longrightarrow> fid \<notin> set COLUMNS_TO_EXCLUDE \<Longrightarrow>
   map_of m fid =
     (case find (\<lambda>d. ds_id d = Some fid) (rev fs) of
        None \<Rightarrow> map_of m0 fid
      | Some d \<Rightarrow> Some (field_label d fid))"
proof (induction fs arbitrary: m0)
  case Nil
  then show ?case by simp
next
  case (Cons f fs)
  from Cons.prems(1) obtain i where i: "ds_id f = Some i"
    by (auto split: option.splits)
  show ?case
  proof (cases "i \<in> set COLUMNS_TO_EXCLUDE")
    case True
    with Cons.prems i have "name_map_loop fs m0 = Inr m" and "i \<noteq> fid"
      by auto
    with Cons.IH [of m0] Cons.prems(2) i show ?thesis
      by (simp add: find_snoc split: option.splits)
  next
    case False
    with Cons.prems i have "name_map_loop fs (AList.update i (field_label f i) m0) = Inr m"
      by simp
    from Cons.IH [OF this Cons.prems(2)] i show ?thesis
      by (auto simp: find_snoc update_conv' split: option.splits)
  qed
qed

lemma name_map_loop_total:
  "list_all (\<lambda>d. ds_id d \<noteq> None) fs \<Longrightarrow> \<exists>m. name_map_loop fs m0 = Inr m"
  by (induction fs arbitrary: m0) auto

lemma name_title_map_label:
  assumes "datastore_search E [(''ignore_auth'', PBool True)]
             [(''resource_id'', t), (''limit'', PInt 0)] = Inr res"
    and "list_all (\<lambda>d. ds_id d \<noteq> None) (case res of None \<Rightarrow> [] | Some fs \<Rightarrow> fs)"
    and "fid \<notin> set COLUMNS_TO_EXCLUDE"
  shows "dict_get (get_name_title_map E t) fid fid =
           (case host_label (case res of None \<Rightarrow> [] | Some fs \<Rightarrow> fs) fid of
              Some l \<Rightarrow> l | None \<Rightarrow> fid)"
proof -
  let ?fs = "case res of None \<Rightarrow> [] | Some fs \<Rightarrow> fs"
  from assms(2) obtain m where m: "name_map_loop ?fs [] = Inr m"
    using name_map_loop_total by blast
  with assms(1) have "get_name_title_map E t = m"
    by (simp add: get_name_title_map_def get_name_title_map_body_def)
  moreover from name_map_loop_lookup [OF m assms(3)]
  have "dict_get m fid fid = (case host_label ?fs fid of Some l \<Rightarrow> l | None \<Rightarrow> fid)"
    by (auto simp: dict_get_def host_label_def field_label_def split: option.splits)
  ultimately show ?thesis by simp
qed

lemma name_title_map_raise:
  "datastore_search E [(''ignore_auth'', PBool True)]
     [(''resource_id'', t), (''limit'', PInt 0)] = Inl e \<Longrightarrow>
   get_name_title_map E t = []"
  by (simp add: get_name_title_map_def get_name_title_map_body_def)

text \<open>
  C10: every record of the returned schema has a \<^verbatim>\<open>fid\<close>, and its \<^verbatim>\<open>name\<close> is the
  label the host's field list holds for that fid, or the fid where the list holds none
  (every field of the host's list carrying its id). When
  \<^verbatim>\<open>datastore_search\<close> raises, the label map is empty, the name is the fid and the
  envelope has \<^verbatim>\<open>success: true\<close>; and the action does return such an envelope to an
  authorized caller with a truthy \<^verbatim>\<open>resourceID\<close> and a string or absent \<^verbatim>\<open>sort\<close>.
\<close>

theorem schema_names_are_labels:
  "(show_dsl_metadata E ctx data_dict = Inr r \<and> f \<in> set (envelope_items r ''schema'') \<longrightarrow>
      (\<exists>fid. item_get f ''fid'' = Some (PStr fid) \<and>
         (datastore_search E [(''ignore_auth'', PBool True)]
            [(''resource_id'', dict_get data_dict ''resourceID'' PNone), (''limit'', PInt 0)] = Inr res \<and>
          list_all (\<lambda>d. ds_id d \<noteq> None) (case res of None \<Rightarrow> [] | Some fs \<Rightarrow> fs) \<longrightarrow>
            item_get f ''name'' =
              Some (PStr (case host_label (case res of None \<Rightarrow> [] | Some fs \<Rightarrow> fs) fid of
                            Some l \<Rightarrow> l | None \<Rightarrow> fid))) \<and>
         (datastore_search E [(''ignore_auth'', PBool True)]
            [(''resource_id'', dict_get data_dict ''resourceID'' PNone), (''limit'', PInt 0)] = Inl e \<longrightarrow>
            get_name_title_map E (dict_get data_dict ''resourceID'' PNone) = [] \<and>
            item_get f ''name'' = Some (PStr fid) \<and>
            item_get r ''success'' = Some (PBool True)))) \<and>
   (datastore_search E [(''ignore_auth'', PBool True)]
      [(''resource_id'', dict_get data_dict ''resourceID'' PNone), (''limit'', PInt 0)] = Inl e \<and>
    truthy (dict_get data_dict ''resourceID'' PNone) \<and>
    check_access E ''resource_show'' ctx [(''id'', dict_get data_dict ''resourceID'' PNone)] = None \<and>
    dict_get data_dict ''sort'' (PStr ''false'') = PStr s \<longrightarrow>
      (\<exists>F. show_dsl_metadata E ctx data_dict =
         Inr (PDict [(''success'', PBool True),
                     (''schema'', PList (map py_field F)),
                     (''name'', dict_get data_dict ''resourceID'' PNone),
                     (''resource_id'', dict_get data_dict ''resourceID'' PNone),
                     (''message'', PStr '''')])))"
proof (rule conjI; rule impI)
  let ?rid = "dict_get data_dict ''resourceID'' PNone"
  let ?search = "datastore_search E [(''ignore_auth'', PBool True)]
            [(''resource_id'', ?rid), (''limit'', PInt 0)]"
  let ?fs = "case res of None \<Rightarrow> [] | Some fs \<Rightarrow> fs"
  assume a: "show_dsl_metadata E ctx data_dict = Inr r \<and> f \<in> set (envelope_items r ''schema'')"
  then obtain b F where
    F: "get_table_metadata E ?rid b = Inr F" and
    r: "r = PDict [(''success'', PBool True),
                (''schema'', PList (map py_field F)),
                (''name'', ?rid), (''resource_id'', ?rid), (''message'', PStr '''')]"
    using show_dsl_metadata_Inr [of E ctx data_dict r] by blast
  with a obtain g where g: "g \<in> set F" and fg: "f = py_field g"
    by (auto simp: envelope_items_def)
  from get_table_metadata_members [OF F g] obtain fid where
    fid: "map_of g ''fid'' = Some fid" "fid \<notin> set COLUMNS_TO_EXCLUDE" and
    name: "map_of g ''name'' = Some (dict_get (get_name_title_map E ?rid) fid fid)"
    by blast
  have 1: "item_get f ''fid'' = Some (PStr fid)"
    using fg fid by (simp add: item_get_py_field)
  have 2: "?search = Inr res \<and> list_all (\<lambda>d. ds_id d \<noteq> None) ?fs \<longrightarrow>
      item_get f ''name'' = Some (PStr (case host_label ?fs fid of Some l \<Rightarrow> l | None \<Rightarrow> fid))"
    using fg name name_title_map_label [of E ?rid res fid] fid(2)
    by (simp add: item_get_py_field)
  have 3: "?search = Inl e \<longrightarrow>
      get_name_title_map E ?rid = [] \<and> item_get f ''name'' = Some (PStr fid) \<and>
      item_get r ''success'' = Some (PBool True)"
  proof
    assume raised: "?search = Inl e"
    then have empty: "get_name_title_map E ?rid = []"
      by (rule name_title_map_raise)
    with name have "map_of g ''name'' = Some fid"
      by (simp add: dict_get_def)
    with fg have "item_get f ''name'' = Some (PStr fid)"
      by (simp add: item_get_py_field)
    moreover from r have "item_get r ''success'' = Some (PBool True)"
      by (simp add: item_get_def)
    ultimately show "get_name_title_map E ?rid = [] \<and> item_get f ''name'' = Some (PStr fid) \<and>
      item_get r ''success'' = Some (PBool True)"
      using empty by simp
  qed
  from 1 2 3
  show "\<exists>fid. item_get f ''fid'' = Some (PStr fid) \<and>
         (?search = Inr res \<and> list_all (\<lambda>d. ds_id d \<noteq> None) ?fs \<longrightarrow>
            item_get f ''name'' =
              Some (PStr (case host_label ?fs fid of Some l \<Rightarrow> l | None \<Rightarrow> fid))) \<and>
         (?search = Inl e \<longrightarrow>
            get_name_title_map E ?rid = [] \<and>
            item_get f ''name'' = Some (PStr fid) \<and>
            item_get r ''success'' = Some (PBool True))"
    by (intro exI [of _ fid] conjI)
next
  let ?rid = "dict_get data_dict ''resourceID'' PNone"
  assume a: "datastore_search E [(''ignore_auth'', PBool True)]
      [(''resource_id'', ?rid), (''limit'', PInt 0)] = Inl e \<and>
    truthy ?rid \<and>
    check_access E ''resource_show'' ctx [(''id'', ?rid)] = None \<and>
    dict_get data_dict ''sort'' (PStr ''false'') = PStr s"
  obtain F where "get_table_metadata E ?rid (map lower_char s = ''true'') = Inr F"
    using get_table_metadata_total by blast
  with a show "\<exists>F. show_dsl_metadata E ctx data_dict =
         Inr (PDict [(''success'', PBool True),
                     (''schema'', PList (map py_field F)),
                     (''name'', ?rid), (''resource_id'', ?rid), (''message'', PStr '''')])"
    using show_dsl_metadata_run [of data_dict E ctx s F] by blast
qed

theorem schema_names_are_labels_witness:
  "PDict [(''fid'', PStr ''well''), (''name'', PStr ''Well name''), (''semanticType'', PStr ''nominal'')]
     \<in> set (envelope_items
          (PDict [(''success'', PBool True),
                 (''schema'',
                    PList [PDict [(''fid'', PStr ''depth''), (''semanticType'', PStr ''quantitative''),
                                  (''name'', PStr ''depth'')],
                           PDict [(''fid'', PStr ''well''), (''name'', PStr ''Well name''),
                                  (''semanticType'', PStr ''nominal'')]]),
                 (''name'', PStr ''r1''),
                 (''resource_id'', PStr ''r1''),
                 (''message'', PStr '''')]) ''schema'') \<and>
   host_label [\<lparr> ds_id = Some ''_id'', ds_info = None \<rparr>,
               \<lparr> ds_id = Some ''well'', ds_info = Some [(''label'', ''Well name'')] \<rparr>,
               \<lparr> ds_id = Some ''depth'', ds_info = Some [(''notes'', ''metres'')] \<rparr>] ''well'' =
     Some ''Well name'' \<and>
   item_get (PDict [(''fid'', PStr ''well''), (''name'', PStr ''Well name''),
                    (''semanticType'', PStr ''nominal'')]) ''name'' = Some (PStr ''Well name'') \<and>
   PDict [(''fid'', PStr ''well''), (''name'', PStr ''well''), (''semanticType'', PStr ''nominal'')]
     \<in> set (envelope_items
          (PDict [(''success'', PBool True),
                 (''schema'',
                    PList [PDict [(''fid'', PStr ''depth''), (''semanticType'', PStr ''quantitative''),
                                  (''name'', PStr ''depth'')],
                           PDict [(''fid'', PStr ''well''), (''name'', PStr ''well''),
                                  (''semanticType'', PStr ''nominal'')]]),
                 (''name'', PStr ''r1''),
                 (''resource_id'', PStr ''r1''),
                 (''message'', PStr '''')]) ''schema'') \<and>
   get_name_title_map unlabelled_env (PStr ''r1'') = [] \<and>
   item_get (PDict [(''fid'', PStr ''well''), (''name'', PStr ''well''),
                    (''semanticType'', PStr ''nominal'')]) ''name'' = Some (PStr ''well'')"
  (is "?f \<in> set (envelope_items ?M ''schema'') \<and> host_label ?fs ''well'' = _ \<and> _ \<and>
       ?g \<in> set (envelope_items ?U ''schema'') \<and> _ \<and> _")
proof -
  let ?dd = "[(''resourceID'', PStr ''r1'')]"
  have rid: "dict_get ?dd ''resourceID'' PNone = PStr ''r1''"
    by (simp add: dict_get_def)
  have f: "?f \<in> set (envelope_items ?M ''schema'')"
    by (simp add: envelope_items_def)
  have g: "?g \<in> set (envelope_items ?U ''schema'')"
    by (simp add: envelope_items_def)
  have search: "datastore_search demo_env [(''ignore_auth'', PBool True)]
      [(''resource_id'', dict_get ?dd ''resourceID'' PNone), (''limit'', PInt 0)] = Inr (Some ?fs)"
    by (simp add: demo_env_def)
  have ids: "list_all (\<lambda>d. ds_id d \<noteq> None) (case Some ?fs of None \<Rightarrow> [] | Some fs \<Rightarrow> fs)"
    by simp
  have failed: "datastore_search unlabelled_env [(''ignore_auth'', PBool True)]
      [(''resource_id'', dict_get ?dd ''resourceID'' PNone), (''limit'', PInt 0)] =
      Inl (HostError ''NotFound'' ''Resource was not found'')"
    by (simp add: unlabelled_env_def)
  have label: "host_label ?fs ''well'' = Some ''Well name''"
    by (simp add: host_label_def)
  from schema_names_are_labels [where E = demo_env and ctx = "[]" and data_dict = ?dd
      and r = ?M and f = ?f and res = "Some ?fs", THEN conjunct1, THEN mp,
      OF conjI [OF demo_metadata f]]
  obtain fid where fid: "item_get ?f ''fid'' = Some (PStr fid)" and
    name: "item_get ?f ''name'' =
      Some (PStr (case host_label (case Some ?fs of None \<Rightarrow> [] | Some fs \<Rightarrow> fs) fid of
                    Some l \<Rightarrow> l | None \<Rightarrow> fid))"
    using search ids by auto
  from fid have "fid = ''well''"
    by (simp add: item_get_def)
  with name label have labelled: "item_get ?f ''name'' = Some (PStr ''Well name'')"
    by simp
  from schema_names_are_labels [where E = unlabelled_env and ctx = "[]" and data_dict = ?dd
      and r = ?U and f = ?g and e = "HostError ''NotFound'' ''Resource was not found''",
      THEN conjunct1, THEN mp, OF conjI [OF unlabelled_metadata g]]
  obtain fid' where fid': "item_get ?g ''fid'' = Some (PStr fid')" and
    fallback: "get_name_title_map unlabelled_env (dict_get ?dd ''resourceID'' PNone) = []"
      "item_get ?g ''name'' = Some (PStr fid')"
    using failed by auto
  from fid' have "fid' = ''well''"
    by (simp add: item_get_def)
  with fallback rid have unlabelled:
    "get_name_title_map unlabelled_env (PStr ''r1'') = []"
    "item_get ?g ''name'' = Some (PStr ''well'')"
    by simp_all
  from f label labelled g unlabelled show ?thesis
    by (intro conjI)
qed

section \<open>The view predicate\<close>

text \<open>\<open>contains_str\<close> is the substring test.\<close>

lemma contains_str_iff: "contains_str needle s \<longleftrightarrow> (\<exists>p q. s = p @ needle @ q)"
proof (induction s)
  case Nil
  then show ?case by auto
next
  case (Cons c cs)
  show ?case
  proof
    assume "contains_str needle (c # cs)"
    then have "take (length needle) (c # cs) = needle \<or> contains_str needle cs"
      by simp
    then show "\<exists>p q. c # cs = p @ needle @ q"
    proof
      assume "take (length needle) (c # cs) = needle"
      then have "c # cs = [] @ needle @ drop (length needle) (c # cs)"
        by (metis append_Nil append_take_drop_id)
      then show ?thesis by blast
    next
      assume "contains_str needle cs"
      with Cons.IH obtain p q where "cs = p @ needle @ q" by blast
      then have "c # cs = (c # p) @ needle @ q" by simp
      then show ?thesis by blast
    qed
  next
    assume "\<exists>p q. c # cs = p @ needle @ q"
    then obtain p q where pq: "c # cs = p @ needle @ q" by blast
    show "contains_str needle (c # cs)"
    proof (cases p)
      case Nil
      with pq have "take (length needle) (c # cs) = needle" by simp
      then show ?thesis by simp
    next
      case (Cons a p')
      with pq have "cs = p' @ needle @ q" by simp
      with Cons.IH have "contains_str needle cs" by blast
      then show ?thesis by simp
    qed
  qed
qed



end
